theory Spec2Isabelle
  imports Complex_Main
begin

section \<open>The gacha session simulator and its aggregator (src/src/App.tsx)\<close>

text \<open>
  Modelling conventions.
  \<^item> A JavaScript number that holds a configuration value or a probability is a \<open>real\<close>:
    the rounding of IEEE doubles is abstracted, every arithmetic step is exact.
  \<^item> The counters \<open>pulls\<close>, \<open>pityCounter6\<close>, \<open>pityCounter5\<close>, \<open>totalPulls\<close>,
    \<open>sessionCount\<close> start at 0 and are only ever increased by a whole number or reset to
    0: they are \<open>nat\<close>,
    and a comparison with a configuration value goes through \<open>real\<close>.
  \<^item> \<open>Math.random()\<close> is a playback sequence \<open>rnd :: nat \<Rightarrow> real\<close>: the \<open>n\<close>-th call of a
    run returns \<open>rnd n\<close>. The number of calls made so far is carried in the state
    (\<open>rngCalls\<close>), so that it is visible which steps consume randomness. Nothing
    proved below needs the values to lie in the interval from 0 to 1.
  \<^item> A loop that need not terminate is a \<^theory_text>\<open>partial_function (option)\<close>;
    \<open>None\<close> is a run that never returns.
\<close>

subsection \<open>Configuration and session state\<close>

record SimulationConfig =
  baseRate6 :: real
  baseRate5 :: real
  pityStart6 :: real
  pityInc6 :: real
  hardPity6 :: real
  hardPity5 :: real
  targetGuarantee :: real
  targetTotalPulls :: real

text \<open>The local variables of \<open>simulateOneSession\<close>, and the position in the random sequence.\<close>

record session_state =
  pulls :: nat
  pityCounter6 :: nat
  pityCounter5 :: nat
  gotTarget :: bool
  rngCalls :: nat

text \<open>The object \<open>{ pulls, triggeredGuarantee }\<close> a session returns.\<close>

record session_result =
  res_pulls :: nat
  triggeredGuarantee :: bool

subsection \<open>One pull\<close>

text \<open>
  Step 2 of the loop body (source lines 70 to 82): the probability of a six-star result,
  from the already incremented counter \<open>pc6\<close>. The three assignments to
  \<open>currentRate6\<close> are the three \<open>let\<close>s. The locals \<open>baseRate6\<close> and \<open>pityInc6\<close>
  of the source are the configured percentages divided by 100.
\<close>

definition currentRate6 :: "SimulationConfig \<Rightarrow> nat \<Rightarrow> real" where
  "currentRate6 cfg pc6 =
     (let r0 = baseRate6 cfg / 100;
          r1 = (if real pc6 > pityStart6 cfg
                then r0 + (real pc6 - pityStart6 cfg) * (pityInc6 cfg / 100) else r0);
          r2 = (if r1 > 1 then 1 else r1)
      in if real pc6 \<ge> hardPity6 cfg then 1 else r2)"

text \<open>The five-star probability of source lines 103 to 107.\<close>

definition currentRate5 :: "SimulationConfig \<Rightarrow> nat \<Rightarrow> real" where
  "currentRate5 cfg pc5 = (if real pc5 \<ge> hardPity5 cfg then 1 else baseRate5 cfg / 100)"

text \<open>
  One execution of the body of \<open>while (!gotTarget)\<close>. \<open>Inl\<close> is the \<open>return\<close> of the
  guarantee check (line 67), \<open>Inr\<close> the state with which the loop condition is tested
  again (after \<open>continue\<close>, or at the end of the body).
\<close>

definition loop_body ::
  "SimulationConfig \<Rightarrow> (nat \<Rightarrow> real) \<Rightarrow> session_state \<Rightarrow> session_result + session_state" where
  "loop_body cfg rnd s =
     (let p = pulls s + 1; pc6 = pityCounter6 s + 1; pc5 = pityCounter5 s + 1 in
      if targetGuarantee cfg > 0 \<and> real p = targetGuarantee cfg
      then Inl \<lparr>res_pulls = p, triggeredGuarantee = True\<rparr>
      else
        let rate6 = currentRate6 cfg pc6; rng = rnd (rngCalls s) in
        if rng < rate6
        then Inr \<lparr>pulls = p, pityCounter6 = 0, pityCounter5 = pc5,
                  gotTarget = (if rnd (rngCalls s + 1) < 1 / 2 then True else gotTarget s),
                  rngCalls = rngCalls s + 2\<rparr>
        else
          let rate5 = currentRate5 cfg pc5 in
          Inr \<lparr>pulls = p, pityCounter6 = pc6,
               pityCounter5 = (if rng < rate6 + rate5 then 0 else pc5),
               gotTarget = gotTarget s, rngCalls = rngCalls s + 1\<rparr>)"

text \<open>
  The loop of \<open>simulateOneSession\<close>, with the \<open>return\<close> after it (line 119). The
  result is paired with the number of random values consumed when the session returns.
\<close>

partial_function (option) session_loop ::
  "SimulationConfig \<Rightarrow> (nat \<Rightarrow> real) \<Rightarrow> session_state \<Rightarrow> (session_result \<times> nat) option" where
  "session_loop cfg rnd s =
     (if \<not> gotTarget s
      then (case loop_body cfg rnd s of
              Inl r \<Rightarrow> Some (r, rngCalls s)
            | Inr s' \<Rightarrow> session_loop cfg rnd s')
      else Some (\<lparr>res_pulls = pulls s, triggeredGuarantee = False\<rparr>, rngCalls s))"

declare session_loop.simps [code]

definition session_init :: "nat \<Rightarrow> session_state" where
  "session_init k = \<lparr>pulls = 0, pityCounter6 = 0, pityCounter5 = 0, gotTarget = False, rngCalls = k\<rparr>"

definition simulateOneSession ::
  "SimulationConfig \<Rightarrow> (nat \<Rightarrow> real) \<Rightarrow> nat \<Rightarrow> (session_result \<times> nat) option" where
  "simulateOneSession cfg rnd k = session_loop cfg rnd (session_init k)"

subsection \<open>JavaScript numbers that may fail to be finite\<close>

text \<open>
  The results of the aggregator divide by the session count and take the maximum of a
  possibly empty list, so they can be \<open>NaN\<close> or an infinity. Such values are a
  \<open>jsnum\<close>; \<open>Fin x\<close> is the finite number \<open>x\<close>.
\<close>

datatype jsnum = Fin real | PosInf | NegInf | NaN

text \<open>\<open>a / b\<close> for finite \<open>a\<close> and a finite \<open>b\<close> that is not negative zero.\<close>

definition js_div :: "real \<Rightarrow> real \<Rightarrow> jsnum" where
  "js_div a b =
     (if b = 0 then (if a = 0 then NaN else if a > 0 then PosInf else NegInf)
      else Fin (a / b))"

text \<open>\<open>x * c\<close> for a finite \<open>c\<close>.\<close>

fun js_times :: "jsnum \<Rightarrow> real \<Rightarrow> jsnum" where
  "js_times (Fin a) c = Fin (a * c)"
| "js_times PosInf c = (if c = 0 then NaN else if c > 0 then PosInf else NegInf)"
| "js_times NegInf c = (if c = 0 then NaN else if c > 0 then NegInf else PosInf)"
| "js_times NaN c = NaN"

text \<open>\<open>Math.max(a, b)\<close>.\<close>

fun js_max :: "jsnum \<Rightarrow> jsnum \<Rightarrow> jsnum" where
  "js_max NaN b = NaN"
| "js_max a NaN = NaN"
| "js_max PosInf b = PosInf"
| "js_max a PosInf = PosInf"
| "js_max NegInf b = b"
| "js_max a NegInf = a"
| "js_max (Fin a) (Fin b) = Fin (max a b)"

text \<open>\<open>a <= b\<close>: false as soon as one side is \<open>NaN\<close>.\<close>

fun js_le :: "jsnum \<Rightarrow> jsnum \<Rightarrow> bool" where
  "js_le NaN b = False"
| "js_le a NaN = False"
| "js_le NegInf b = True"
| "js_le a PosInf = True"
| "js_le PosInf b = False"
| "js_le a NegInf = False"
| "js_le (Fin a) (Fin b) = (a \<le> b)"

text \<open>
  \<open>x.toFixed(f)\<close>, as the number its string denotes: the decimal with \<open>f\<close> fraction
  digits nearest to \<open>x\<close>, the larger one of two equally near, computed on the absolute
  value of a negative \<open>x\<close>. The strings of \<open>NaN\<close> and the infinities denote themselves,
  which is also what \<open>Number\<close> reads back from them.
\<close>

definition toFixed_real :: "nat \<Rightarrow> real \<Rightarrow> real" where
  "toFixed_real f x =
     (if x < 0 then - (of_int \<lfloor>- x * 10 ^ f + 1 / 2\<rfloor> / 10 ^ f)
      else of_int \<lfloor>x * 10 ^ f + 1 / 2\<rfloor> / 10 ^ f)"

fun toFixed :: "nat \<Rightarrow> jsnum \<Rightarrow> jsnum" where
  "toFixed f (Fin x) = Fin (toFixed_real f x)"
| "toFixed f PosInf = PosInf"
| "toFixed f NegInf = NegInf"
| "toFixed f NaN = NaN"

subsection \<open>The aggregator: the body of \<open>runSimulation\<close>\<close>

text \<open>The locals of source lines 140 to 144, and the position in the random sequence.\<close>

record agg_state =
  totalPulls :: nat
  sessionCount :: nat
  counts :: "nat \<rightharpoonup> nat"
  pullsArray :: "nat list"
  triggeredGuaranteeCount :: nat
  rngPos :: nat

definition agg_init :: "nat \<Rightarrow> agg_state" where
  "agg_init k = \<lparr>totalPulls = 0, sessionCount = 0, counts = Map.empty, pullsArray = [],
                 triggeredGuaranteeCount = 0, rngPos = k\<rparr>"

text \<open>\<open>counts[i] || 0\<close>.\<close>

definition freq :: "(nat \<rightharpoonup> nat) \<Rightarrow> nat \<Rightarrow> nat" where
  "freq cs i = (case cs i of None \<Rightarrow> 0 | Some c \<Rightarrow> c)"

text \<open>Source lines 149 to 154: what one finished session adds.\<close>

definition accumulate :: "agg_state \<Rightarrow> session_result \<Rightarrow> nat \<Rightarrow> agg_state" where
  "accumulate a r k =
     \<lparr>totalPulls = totalPulls a + res_pulls r,
      sessionCount = sessionCount a + 1,
      counts = (counts a)(res_pulls r \<mapsto> freq (counts a) (res_pulls r) + 1),
      pullsArray = pullsArray a @ [res_pulls r],
      triggeredGuaranteeCount =
        (if triggeredGuarantee r then triggeredGuaranteeCount a + 1 else triggeredGuaranteeCount a),
      rngPos = k\<rparr>"

text \<open>The loop \<open>while (totalPulls < config.targetTotalPulls)\<close>.\<close>

partial_function (option) aggregate_loop ::
  "SimulationConfig \<Rightarrow> (nat \<Rightarrow> real) \<Rightarrow> agg_state \<Rightarrow> agg_state option" where
  "aggregate_loop cfg rnd a =
     (if real (totalPulls a) < targetTotalPulls cfg
      then (case simulateOneSession cfg rnd (rngPos a) of
              None \<Rightarrow> None
            | Some (r, k) \<Rightarrow> aggregate_loop cfg rnd (accumulate a r k))
      else Some a)"

declare aggregate_loop.simps [code]

text \<open>One element of \<open>distribution\<close>; \<open>percent\<close> is the number its string denotes.\<close>

record dist_entry =
  e_pulls :: nat
  e_count :: nat
  percent :: jsnum
  cumulativePercent :: jsnum

record SimulationResult =
  distribution :: "dist_entry list"
  totalSimulations :: nat
  totalPullsConsumed :: nat
  averagePulls :: jsnum
  medianPulls :: "nat option"
  pity120Triggered :: nat
  maxPulls :: jsnum

text \<open>\<open>Math.max(...Object.keys(counts).map(Number))\<close>: \<open>-Infinity\<close> without keys.\<close>

definition maxPull_of :: "(nat \<rightharpoonup> nat) \<Rightarrow> jsnum" where
  "maxPull_of cs = (if dom cs = {} then NegInf else Fin (real (Max (dom cs))))"

text \<open>
  The values \<open>i = 1, 2, ...\<close> with \<open>i <= chartMax\<close> that the \<open>for\<close> loop of line 163
  visits; \<open>None\<close> when the bound is \<open>Infinity\<close> and the loop never ends.
\<close>

fun for_indices :: "jsnum \<Rightarrow> nat list option" where
  "for_indices (Fin m) = Some [1..<Suc (nat \<lfloor>m\<rfloor>)]"
| "for_indices PosInf = None"
| "for_indices NegInf = Some []"
| "for_indices NaN = Some []"

definition mk_entry :: "nat \<Rightarrow> nat \<Rightarrow> nat \<Rightarrow> nat \<Rightarrow> dist_entry" where
  "mk_entry sc i c running =
     \<lparr>e_pulls = i, e_count = c,
      percent = toFixed 3 (js_times (js_div (real c) (real sc)) 100),
      cumulativePercent = toFixed 2 (js_times (js_div (real running) (real sc)) 100)\<rparr>"

text \<open>
  The body of the \<open>for\<close> loop (lines 164 to 174) over the indices still to visit, with
  \<open>runningCount\<close> as it is before the first of them.
\<close>

fun build_distribution ::
  "SimulationConfig \<Rightarrow> (nat \<rightharpoonup> nat) \<Rightarrow> nat \<Rightarrow> nat list \<Rightarrow> nat \<Rightarrow> dist_entry list" where
  "build_distribution cfg cs sc [] runningCount = []"
| "build_distribution cfg cs sc (i # is) runningCount =
     (let c = freq cs i; running = runningCount + c;
          rest = build_distribution cfg cs sc is running
      in if c > 0 \<or> real i \<le> targetGuarantee cfg \<or> i mod 10 = 0
         then mk_entry sc i c running # rest else rest)"

text \<open>Lines 180 and 181; reading past the end of an array gives \<open>undefined\<close>, here \<open>None\<close>.\<close>

definition median_of :: "nat list \<Rightarrow> nat option" where
  "median_of xs =
     (let sorted = sort xs; i = length sorted div 2
      in if i < length sorted then Some (sorted ! i) else None)"

text \<open>Lines 157 to 191: the result record made from the state the loop ends in.\<close>

definition summarize :: "SimulationConfig \<Rightarrow> agg_state \<Rightarrow> SimulationResult option" where
  "summarize cfg a =
     (let maxPull = maxPull_of (counts a);
          chartMax = js_max maxPull (Fin (targetGuarantee cfg))
      in case for_indices chartMax of
           None \<Rightarrow> None
         | Some is \<Rightarrow>
             Some \<lparr>distribution = build_distribution cfg (counts a) (sessionCount a) is 0,
                   totalSimulations = sessionCount a,
                   totalPullsConsumed = totalPulls a,
                   averagePulls = js_div (real (totalPulls a)) (real (sessionCount a)),
                   medianPulls = median_of (pullsArray a),
                   pity120Triggered = triggeredGuaranteeCount a,
                   maxPulls = maxPull\<rparr>)"

definition runSimulation ::
  "SimulationConfig \<Rightarrow> (nat \<Rightarrow> real) \<Rightarrow> SimulationResult option" where
  "runSimulation cfg rnd =
     (case aggregate_loop cfg rnd (agg_init 0) of
        None \<Rightarrow> None
      | Some a \<Rightarrow> summarize cfg a)"

subsection \<open>The rare-tier probability in the words of the specification\<close>

text \<open>
  Step 3 of the specified algorithm, over the probabilities and thresholds it names:
  start from \<open>baseRateRare\<close>; beyond \<open>pityStartRare\<close> add the escalation; clamp to at
  most 1; at \<open>hardPityRare\<close> force exactly 1.
\<close>

definition spec_rare_probability :: "real \<Rightarrow> real \<Rightarrow> real \<Rightarrow> real \<Rightarrow> nat \<Rightarrow> real" where
  "spec_rare_probability baseRateRare pityStartRare pityIncrementRare hardPityRare rarePityCounter =
     (if real rarePityCounter \<ge> hardPityRare then 1
      else min 1 (baseRateRare +
                  (if real rarePityCounter > pityStartRare
                   then (real rarePityCounter - pityStartRare) * pityIncrementRare else 0)))"

subsection \<open>Concrete configurations and random sequences\<close>

text \<open>\<open>DEFAULT_CONFIG\<close> of source lines 36 to 45.\<close>

definition DEFAULT_CONFIG :: SimulationConfig where
  "DEFAULT_CONFIG =
     \<lparr>baseRate6 = 8 / 10, baseRate5 = 8, pityStart6 = 65, pityInc6 = 5, hardPity6 = 80,
      hardPity5 = 10, targetGuarantee = 120, targetTotalPulls = 500000\<rparr>"

text \<open>A random source that returns 0 at every call: every pull is the target.\<close>

definition always_zero :: "nat \<Rightarrow> real" where
  "always_zero n = 0"

text \<open>
  A random source whose second value is 0.7 and every other value 0: the first pull is a
  six-star that is not the target, the second pull is the target.
\<close>

definition miss_once :: "nat \<Rightarrow> real" where
  "miss_once n = (if n = 1 then 7 / 10 else 0)"

text \<open>
  A budget of three draws under a guarantee of two: with \<open>miss_once\<close> the first session
  ends by the guarantee at its second pull, the second session at its first pull.
\<close>

definition two_session_config :: SimulationConfig where
  "two_session_config = DEFAULT_CONFIG\<lparr>targetGuarantee := 2, targetTotalPulls := 3\<rparr>"

definition two_session_state :: agg_state where
  "two_session_state =
     \<lparr>totalPulls = 3, sessionCount = 2, counts = [2 \<mapsto> 1, 1 \<mapsto> 1],
      pullsArray = [2, 1], triggeredGuaranteeCount = 1, rngPos = 4\<rparr>"

definition two_session_result :: SimulationResult where
  "two_session_result =
     \<lparr>distribution =
        [\<lparr>e_pulls = 1, e_count = 1, percent = Fin 50, cumulativePercent = Fin 50\<rparr>,
         \<lparr>e_pulls = 2, e_count = 1, percent = Fin 50, cumulativePercent = Fin 100\<rparr>],
      totalSimulations = 2, totalPullsConsumed = 3, averagePulls = Fin (3 / 2),
      medianPulls = Some 2, pity120Triggered = 1, maxPulls = Fin 2\<rparr>"




subsection \<open>Notions used to state the invariants of the aggregator\<close>



text \<open>The frequency map of a list of draw counts.\<close>

definition histogram :: "nat list \<Rightarrow> (nat \<rightharpoonup> nat)" where
  "histogram xs k = (if k \<in> set xs then Some (count_list xs k) else None)"

text \<open>
  What holds of the locals of the aggregator each time its loop condition is tested: the
  counters and the map are determined by the list of the sessions run so far, every
  session has at least one draw, and before the last session the total was below the
  budget.
\<close>

definition agg_inv :: "SimulationConfig \<Rightarrow> agg_state \<Rightarrow> bool" where
  "agg_inv cfg a \<longleftrightarrow>
     sessionCount a = length (pullsArray a) \<and>
     totalPulls a = sum_list (pullsArray a) \<and>
     (\<forall>p \<in> set (pullsArray a). 1 \<le> p) \<and>
     counts a = histogram (pullsArray a) \<and>
     triggeredGuaranteeCount a \<le> sessionCount a \<and>
     (pullsArray a = [] \<or>
      real (totalPulls a) < targetTotalPulls cfg + real (last (pullsArray a)))"

text \<open>The \<open>cumulativePercent\<close> of an entry, from the session count and \<open>runningCount\<close>.\<close>

definition cumulative_of :: "nat \<Rightarrow> nat \<Rightarrow> jsnum" where
  "cumulative_of sc running = toFixed 2 (js_times (js_div (real running) (real sc)) 100)"

section \<open>Properties of one session\<close>

subsection \<open>Auxiliary facts\<close>

lemmas session_loop_induct = session_loop.raw_induct [rotated 1, consumes 1, case_names step]

lemma loop_body_Inl:
  "loop_body cfg rnd s = Inl r \<Longrightarrow>
     r = \<lparr>res_pulls = pulls s + 1, triggeredGuarantee = True\<rparr> \<and>
     0 < targetGuarantee cfg \<and> real (pulls s + 1) = targetGuarantee cfg"
  by (simp add: loop_body_def Let_def split: if_splits)

lemma loop_body_Inr:
  "loop_body cfg rnd s = Inr s' \<Longrightarrow>
     pulls s' = pulls s + 1 \<and> rngCalls s \<le> rngCalls s' \<and>
     \<not> (0 < targetGuarantee cfg \<and> real (pulls s + 1) = targetGuarantee cfg)"
  by (auto simp add: loop_body_def Let_def split: if_splits)

text \<open>
  What a returning loop returns, from any state in which a target already obtained was
  obtained at a pull that passed the guarantee check.
\<close>

lemma session_loop_post:
  assumes "session_loop cfg rnd s = Some y"
  shows "(gotTarget s \<longrightarrow>
            1 \<le> pulls s \<and> \<not> (0 < targetGuarantee cfg \<and> real (pulls s) = targetGuarantee cfg)) \<longrightarrow>
         pulls s \<le> res_pulls (fst y) \<and> 1 \<le> res_pulls (fst y) \<and> rngCalls s \<le> snd y \<and>
         (triggeredGuarantee (fst y) \<longleftrightarrow>
            0 < targetGuarantee cfg \<and> real (res_pulls (fst y)) = targetGuarantee cfg)"
  using assms
proof (induction cfg rnd s y rule: session_loop_induct)
  case (step loop cfg rnd s y)
  show ?case
  proof (cases "gotTarget s")
    case True
    with step(2) show ?thesis by auto
  next
    case False
    show ?thesis
    proof (cases "loop_body cfg rnd s")
      case (Inl r)
      with False step(2) loop_body_Inl[OF Inl] show ?thesis by auto
    next
      case (Inr s')
      with False step(2) have run: "loop cfg rnd s' = Some y" by simp
      from loop_body_Inr[OF Inr] step(1)[OF run] show ?thesis by auto
    qed
  qed
qed

lemma simulateOneSession_post:
  assumes "simulateOneSession cfg rnd k = Some (r, k')"
  shows "1 \<le> res_pulls r" and "k \<le> k'"
    and "triggeredGuarantee r \<longleftrightarrow>
           0 < targetGuarantee cfg \<and> real (res_pulls r) = targetGuarantee cfg"
  using session_loop_post[of cfg rnd "session_init k" "(r, k')"] assms
  by (simp_all add: simulateOneSession_def session_init_def)

text \<open>With a guarantee that is a whole number the loop returns before passing it.\<close>

lemma session_loop_terminates:
  assumes tg: "targetGuarantee cfg = real N"
  shows "pulls s < N \<Longrightarrow> \<exists>y. session_loop cfg rnd s = Some y \<and> res_pulls (fst y) \<le> N"
proof (induction "N - pulls s" arbitrary: s)
  case 0
  then show ?case by simp
next
  case (Suc n)
  show ?case
  proof (cases "gotTarget s")
    case True
    with Suc.prems show ?thesis by (subst session_loop.simps) simp
  next
    case False
    show ?thesis
    proof (cases "loop_body cfg rnd s")
      case (Inl r)
      from loop_body_Inl[OF Inl] tg have "res_pulls r = N" by simp
      with False Inl show ?thesis by (subst session_loop.simps) simp
    next
      case (Inr s')
      from loop_body_Inr[OF Inr] tg Suc.prems
      have p: "pulls s' = pulls s + 1" "pulls s + 1 \<noteq> N"
        by auto
      with Suc.prems Suc.hyps(2) have "n = N - pulls s'" "pulls s' < N" by auto
      from Suc.hyps(1)[OF this]
      obtain y where "session_loop cfg rnd s' = Some y" "res_pulls (fst y) \<le> N"
        by blast
      with False Inr show ?thesis by (subst session_loop.simps) simp
    qed
  qed
qed

lemma nat_of_integer_real:
  assumes "0 < (x::real)" "real_of_int \<lfloor>x\<rfloor> = x"
  shows "real (nat \<lfloor>x\<rfloor>) = x" and "0 < nat \<lfloor>x\<rfloor>"
proof -
  from assms have "0 \<le> \<lfloor>x\<rfloor>" by simp
  then have "real (nat \<lfloor>x\<rfloor>) = real_of_int \<lfloor>x\<rfloor>" by simp
  with assms(2) show r: "real (nat \<lfloor>x\<rfloor>) = x" by simp
  with assms(1) show "0 < nat \<lfloor>x\<rfloor>" by (cases "nat \<lfloor>x\<rfloor>") auto
qed

lemma simulateOneSession_terminates:
  assumes "0 < targetGuarantee cfg" "real_of_int \<lfloor>targetGuarantee cfg\<rfloor> = targetGuarantee cfg"
  shows "\<exists>r k'. simulateOneSession cfg rnd k = Some (r, k') \<and> 1 \<le> res_pulls r \<and>
                 real (res_pulls r) \<le> targetGuarantee cfg"
proof -
  let ?N = "nat \<lfloor>targetGuarantee cfg\<rfloor>"
  have N: "targetGuarantee cfg = real ?N" "0 < ?N"
    by (rule sym, rule nat_of_integer_real(1)[OF assms], rule nat_of_integer_real(2)[OF assms])
  obtain r k' where y: "session_loop cfg rnd (session_init k) = Some (r, k')" "res_pulls r \<le> ?N"
    using session_loop_terminates[OF N(1), of "session_init k" rnd] N(2)
    by (auto simp: session_init_def)
  from y(1) have run: "simulateOneSession cfg rnd k = Some (r, k')"
    by (simp add: simulateOneSession_def)
  have lo: "1 \<le> res_pulls r" by (rule simulateOneSession_post(1)[OF run])
  from y(2) have "real (res_pulls r) \<le> real ?N" by simp
  then have hi: "real (res_pulls r) \<le> targetGuarantee cfg" by (simp only: N(1)[symmetric])
  from run lo hi show ?thesis by blast
qed

text \<open>Two configurations with the same loop body run the same sessions.\<close>

lemma session_loop_transfer:
  assumes "session_loop c1 rnd s = Some y"
  shows "(\<forall>t. loop_body c1 rnd t = loop_body c2 rnd t) \<longrightarrow> session_loop c2 rnd s = Some y"
  using assms
proof (induction c1 rnd s y rule: session_loop_induct)
  case (step loop c1 rnd s y)
  show ?case
  proof
    assume eq: "\<forall>t. loop_body c1 rnd t = loop_body c2 rnd t"
    show "session_loop c2 rnd s = Some y"
    proof (cases "gotTarget s")
      case True
      with step(2) show ?thesis by (subst session_loop.simps) simp
    next
      case False
      show ?thesis
      proof (cases "loop_body c1 rnd s")
        case (Inl r)
        with False step(2) eq show ?thesis by (subst session_loop.simps) simp
      next
        case (Inr s')
        with False step(2) have "loop c1 rnd s' = Some y" by simp
        from step(1)[OF this] eq have "session_loop c2 rnd s' = Some y" by simp
        with False Inr eq show ?thesis by (subst session_loop.simps) simp
      qed
    qed
  qed
qed

lemma session_loop_cong:
  assumes "\<And>t. loop_body c1 rnd t = loop_body c2 rnd t"
  shows "session_loop c1 rnd s = session_loop c2 rnd s"
proof (cases "session_loop c1 rnd s")
  case (Some y)
  with session_loop_transfer[OF Some, of c2] assms show ?thesis by simp
next
  case None
  show ?thesis
  proof (cases "session_loop c2 rnd s")
    case (Some y)
    with session_loop_transfer[OF Some, of c1] assms None show ?thesis by simp
  qed (simp add: None)
qed

lemma real_nat_neq_fraction:
  assumes "real_of_int \<lfloor>x\<rfloor> \<noteq> (x::real)"
  shows "real p \<noteq> x"
proof
  assume "real p = x"
  then have "x = real_of_int (int p)" by simp
  then have "real_of_int \<lfloor>x\<rfloor> = x" by (metis floor_of_int)
  with assms show False by simp
qed

lemma currentRate6_ignores_guarantee:
  "currentRate6 (cfg\<lparr>targetGuarantee := g\<rparr>) n = currentRate6 cfg n"
  by (simp add: currentRate6_def Let_def)

lemma currentRate5_ignores_guarantee:
  "currentRate5 (cfg\<lparr>targetGuarantee := g\<rparr>) n = currentRate5 cfg n"
  by (simp add: currentRate5_def)

lemma loop_body_fractional:
  assumes "real_of_int \<lfloor>targetGuarantee cfg\<rfloor> \<noteq> targetGuarantee cfg"
  shows "loop_body cfg rnd s = loop_body (cfg\<lparr>targetGuarantee := 0\<rparr>) rnd s"
  using real_nat_neq_fraction[OF assms, of "Suc (pulls s)"]
  by (simp add: loop_body_def Let_def currentRate6_ignores_guarantee
      currentRate5_ignores_guarantee)

subsection \<open>Concrete sessions\<close>

lemma currentRate6_default_first:
  "currentRate6 (DEFAULT_CONFIG\<lparr>targetGuarantee := g\<rparr>) 1 = 1 / 125"
  by (simp add: currentRate6_def DEFAULT_CONFIG_def)

lemma session_default_always_zero:
  "simulateOneSession DEFAULT_CONFIG always_zero k =
     Some (\<lparr>res_pulls = 1, triggeredGuarantee = False\<rparr>, k + 2)"
  by (simp add: simulateOneSession_def session_init_def session_loop.simps loop_body_def
      currentRate6_def DEFAULT_CONFIG_def always_zero_def)

lemma session_fractional_miss_once:
  "simulateOneSession (DEFAULT_CONFIG\<lparr>targetGuarantee := g\<rparr>) miss_once 0 =
     (if g = 1 then Some (\<lparr>res_pulls = 1, triggeredGuarantee = True\<rparr>, 0)
      else if g = 2 then Some (\<lparr>res_pulls = 2, triggeredGuarantee = True\<rparr>, 2)
      else Some (\<lparr>res_pulls = 2, triggeredGuarantee = False\<rparr>, 4))"
  by (simp add: simulateOneSession_def session_init_def session_loop.simps loop_body_def
      currentRate6_def DEFAULT_CONFIG_def miss_once_def)

subsection \<open>The claims about one session\<close>

text \<open>
  C1. At every pull that reaches the random draw, the six-star probability is the one the
  specification describes: the base rate (the configured percentage over 100), plus
  \<open>(counter - pityStart6) * increment\<close> once the counter exceeds \<open>pityStart6\<close>, clamped
  to at most 1, and exactly 1 once the counter has reached \<open>hardPity6\<close>. The pull is a
  six-star (the six-star counter is reset) exactly when the random value is below it.
\<close>

theorem rare_probability_as_specified:
  assumes "loop_body cfg rnd s = Inr s'"
  shows "currentRate6 cfg n =
           spec_rare_probability (baseRate6 cfg / 100) (pityStart6 cfg) (pityInc6 cfg / 100)
             (hardPity6 cfg) n \<and>
         (pityCounter6 s' = 0 \<longleftrightarrow>
            rnd (rngCalls s) <
              spec_rare_probability (baseRate6 cfg / 100) (pityStart6 cfg) (pityInc6 cfg / 100)
                (hardPity6 cfg) (pityCounter6 s + 1))"
proof -
  have eq: "currentRate6 cfg m =
              spec_rare_probability (baseRate6 cfg / 100) (pityStart6 cfg) (pityInc6 cfg / 100)
                (hardPity6 cfg) m" for m
    by (simp add: currentRate6_def spec_rare_probability_def Let_def min_def)
  have "pityCounter6 s' = 0 \<longleftrightarrow> rnd (rngCalls s) < currentRate6 cfg (pityCounter6 s + 1)"
    using assms by (auto simp: loop_body_def Let_def split: if_splits)
  with eq show ?thesis by simp
qed

theorem rare_probability_as_specified_witness:
  "loop_body DEFAULT_CONFIG always_zero (session_init 0) =
     Inr \<lparr>pulls = 1, pityCounter6 = 0, pityCounter5 = 1, gotTarget = True, rngCalls = 2\<rparr> \<and>
   currentRate6 DEFAULT_CONFIG 70 = 129 / 500 \<and>
   spec_rare_probability (baseRate6 DEFAULT_CONFIG / 100) (pityStart6 DEFAULT_CONFIG)
     (pityInc6 DEFAULT_CONFIG / 100) (hardPity6 DEFAULT_CONFIG) 70 = 129 / 500"
proof -
  have h: "loop_body DEFAULT_CONFIG always_zero (session_init 0) =
     Inr \<lparr>pulls = 1, pityCounter6 = 0, pityCounter5 = 1, gotTarget = True, rngCalls = 2\<rparr>"
    by (simp add: loop_body_def session_init_def currentRate6_def DEFAULT_CONFIG_def
        always_zero_def)
  have v: "currentRate6 DEFAULT_CONFIG 70 = 129 / 500"
    by (simp add: currentRate6_def DEFAULT_CONFIG_def)
  from rare_probability_as_specified [OF h, of 70] v
  have "spec_rare_probability (baseRate6 DEFAULT_CONFIG / 100) (pityStart6 DEFAULT_CONFIG)
     (pityInc6 DEFAULT_CONFIG / 100) (hardPity6 DEFAULT_CONFIG) 70 = 129 / 500"
    by (simp only:)
  with h v show ?thesis by blast
qed

text \<open>
  C2. When the guarantee is positive and the draw counter, once incremented, equals it,
  the session returns at once with that draw count and the flag set. No random value is
  consumed (the position in the random sequence is the one before the pull), whatever
  the random source and whatever the six-star probability of that pull would have been.
\<close>

theorem guarantee_short_circuits:
  assumes "\<not> gotTarget s" and "0 < targetGuarantee cfg"
    and "real (pulls s + 1) = targetGuarantee cfg"
  shows "session_loop cfg rnd s =
           Some (\<lparr>res_pulls = pulls s + 1, triggeredGuarantee = True\<rparr>, rngCalls s)"
  using assms by (subst session_loop.simps) (simp add: loop_body_def)

theorem guarantee_short_circuits_witness:
  "\<not> gotTarget (session_init 0) \<and>
   0 < targetGuarantee (DEFAULT_CONFIG\<lparr>baseRate6 := 100, targetGuarantee := 1\<rparr>) \<and>
   currentRate6 (DEFAULT_CONFIG\<lparr>baseRate6 := 100, targetGuarantee := 1\<rparr>) 1 = 1 \<and>
   session_loop (DEFAULT_CONFIG\<lparr>baseRate6 := 100, targetGuarantee := 1\<rparr>) always_zero
     (session_init 0) = Some (\<lparr>res_pulls = 1, triggeredGuarantee = True\<rparr>, 0)"
  using guarantee_short_circuits
    [of "session_init 0" "DEFAULT_CONFIG\<lparr>baseRate6 := 100, targetGuarantee := 1\<rparr>" always_zero]
  by (simp add: session_init_def currentRate6_def DEFAULT_CONFIG_def)

text \<open>
  C3. At a pull whose random value is below the six-star probability, the six-star
  counter is reset to 0 and a second random value is consumed. If that value is below
  0.5 the session returns the draw count with the flag unset; otherwise it goes on with
  the next pull. In both cases the five-star check is skipped: the five-star counter
  keeps its incremented value.
\<close>

theorem rare_hit_step:
  assumes "\<not> gotTarget s"
    and "\<not> (0 < targetGuarantee cfg \<and> real (pulls s + 1) = targetGuarantee cfg)"
    and "rnd (rngCalls s) < currentRate6 cfg (pityCounter6 s + 1)"
  shows "loop_body cfg rnd s =
           Inr \<lparr>pulls = pulls s + 1, pityCounter6 = 0, pityCounter5 = pityCounter5 s + 1,
                gotTarget = (rnd (rngCalls s + 1) < 1 / 2), rngCalls = rngCalls s + 2\<rparr> \<and>
         session_loop cfg rnd s =
           (if rnd (rngCalls s + 1) < 1 / 2
            then Some (\<lparr>res_pulls = pulls s + 1, triggeredGuarantee = False\<rparr>, rngCalls s + 2)
            else session_loop cfg rnd
                   \<lparr>pulls = pulls s + 1, pityCounter6 = 0, pityCounter5 = pityCounter5 s + 1,
                    gotTarget = False, rngCalls = rngCalls s + 2\<rparr>)"
proof -
  let ?s' = "\<lparr>pulls = pulls s + 1, pityCounter6 = 0, pityCounter5 = pityCounter5 s + 1,
              gotTarget = (rnd (rngCalls s + 1) < 1 / 2), rngCalls = rngCalls s + 2\<rparr>"
  have body: "loop_body cfg rnd s = Inr ?s'"
    using assms by (auto simp: loop_body_def Let_def)
  have unfold: "session_loop cfg rnd s = session_loop cfg rnd ?s'"
    using assms(1) body by (subst session_loop.simps) simp
  show ?thesis
  proof (cases "rnd (rngCalls s + 1) < 1 / 2")
    case True
    then have "session_loop cfg rnd ?s' =
        Some (\<lparr>res_pulls = pulls s + 1, triggeredGuarantee = False\<rparr>, rngCalls s + 2)"
      by (subst session_loop.simps) simp
    with unfold body True show ?thesis by simp
  next
    case False
    then have "?s' = \<lparr>pulls = pulls s + 1, pityCounter6 = 0, pityCounter5 = pityCounter5 s + 1,
                    gotTarget = False, rngCalls = rngCalls s + 2\<rparr>"
      by simp
    with unfold body False show ?thesis by simp
  qed
qed

theorem rare_hit_step_witness:
  "\<not> gotTarget (session_init 0) \<and>
   miss_once (rngCalls (session_init 0)) <
     currentRate6 DEFAULT_CONFIG (pityCounter6 (session_init 0) + 1) \<and>
   \<not> miss_once (rngCalls (session_init 0) + 1) < 1 / 2 \<and>
   loop_body DEFAULT_CONFIG miss_once (session_init 0) =
     Inr \<lparr>pulls = pulls (session_init 0) + 1, pityCounter6 = 0,
          pityCounter5 = pityCounter5 (session_init 0) + 1,
          gotTarget = False, rngCalls = rngCalls (session_init 0) + 2\<rparr> \<and>
   session_loop DEFAULT_CONFIG miss_once (session_init 0) =
     session_loop DEFAULT_CONFIG miss_once
       \<lparr>pulls = pulls (session_init 0) + 1, pityCounter6 = 0,
        pityCounter5 = pityCounter5 (session_init 0) + 1,
        gotTarget = False, rngCalls = rngCalls (session_init 0) + 2\<rparr>"
proof -
  have h1: "\<not> gotTarget (session_init 0)"
    by (simp add: session_init_def)
  have h2: "\<not> (0 < targetGuarantee DEFAULT_CONFIG \<and>
              real (pulls (session_init 0) + 1) = targetGuarantee DEFAULT_CONFIG)"
    by (simp add: session_init_def DEFAULT_CONFIG_def)
  have h3: "miss_once (rngCalls (session_init 0)) <
              currentRate6 DEFAULT_CONFIG (pityCounter6 (session_init 0) + 1)"
    by (simp add: session_init_def DEFAULT_CONFIG_def miss_once_def currentRate6_def)
  have coin: "\<not> miss_once (rngCalls (session_init 0) + 1) < 1 / 2"
    by (simp add: session_init_def miss_once_def)
  from rare_hit_step [of "session_init 0" DEFAULT_CONFIG miss_once, OF h1 h2 h3] coin h1 h3
  show ?thesis
    by (simp only: if_False simp_thms)
qed

text \<open>
  C4, as the code has it. Every session that returns has at least one draw. When the
  guarantee is a positive whole number, the session returns, with at least one and at
  most that many draws (the draw counter counts the iterations of the loop). The bound
  needs the whole number: a positive guarantee with a fraction is never equal to the
  counter, and the counterexample is a session of 2 draws under a guarantee of 1.5.
\<close>

theorem session_draws_bounded:
  "(simulateOneSession cfg rnd k = Some (r, k') \<longrightarrow> 1 \<le> res_pulls r) \<and>
   (0 < targetGuarantee cfg \<and> real_of_int \<lfloor>targetGuarantee cfg\<rfloor> = targetGuarantee cfg \<longrightarrow>
      (\<exists>r k'. simulateOneSession cfg rnd k = Some (r, k') \<and> 1 \<le> res_pulls r \<and>
               real (res_pulls r) \<le> targetGuarantee cfg))"
  using simulateOneSession_post(1) [of cfg rnd k r k']
    simulateOneSession_terminates [of cfg rnd k]
  by blast

theorem session_draws_bounded_witness:
  "simulateOneSession (DEFAULT_CONFIG\<lparr>targetGuarantee := 2\<rparr>) miss_once 0 =
     Some (\<lparr>res_pulls = 2, triggeredGuarantee = True\<rparr>, 2) \<and>
   1 \<le> res_pulls \<lparr>res_pulls = 2, triggeredGuarantee = True\<rparr> \<and>
   0 < targetGuarantee (DEFAULT_CONFIG\<lparr>targetGuarantee := 2\<rparr>) \<and>
   real_of_int \<lfloor>targetGuarantee (DEFAULT_CONFIG\<lparr>targetGuarantee := 2\<rparr>)\<rfloor> =
     targetGuarantee (DEFAULT_CONFIG\<lparr>targetGuarantee := 2\<rparr>) \<and>
   real (res_pulls \<lparr>res_pulls = 2, triggeredGuarantee = True\<rparr>) \<le>
     targetGuarantee (DEFAULT_CONFIG\<lparr>targetGuarantee := 2\<rparr>)"
  using session_draws_bounded
    [of "DEFAULT_CONFIG\<lparr>targetGuarantee := 2\<rparr>" miss_once 0
        "\<lparr>res_pulls = 2, triggeredGuarantee = True\<rparr>" 2]
    session_fractional_miss_once [of 2]
  by simp

theorem session_draws_bounded_counterexample:
  "0 < targetGuarantee (DEFAULT_CONFIG\<lparr>targetGuarantee := 3 / 2\<rparr>) \<and>
   simulateOneSession (DEFAULT_CONFIG\<lparr>targetGuarantee := 3 / 2\<rparr>) miss_once 0 =
     Some (\<lparr>res_pulls = 2, triggeredGuarantee = False\<rparr>, 4) \<and>
   \<not> real (res_pulls \<lparr>res_pulls = 2, triggeredGuarantee = False\<rparr>) \<le>
       targetGuarantee (DEFAULT_CONFIG\<lparr>targetGuarantee := 3 / 2\<rparr>)"
  using session_fractional_miss_once [of "3 / 2"] by simp

text \<open>
  C9. The flag of a session result is set exactly when the guarantee is positive and the
  returned draw count equals it. So a session that ends by a random success has the
  flag unset and a draw count different from a positive guarantee, and with the
  guarantee 0 the flag is never set.
\<close>

theorem guarantee_flag_iff:
  assumes "simulateOneSession cfg rnd k = Some (r, k')"
  shows "triggeredGuarantee r \<longleftrightarrow>
           0 < targetGuarantee cfg \<and> real (res_pulls r) = targetGuarantee cfg"
  using assms by (rule simulateOneSession_post(3))

theorem guarantee_flag_iff_witness:
  "simulateOneSession DEFAULT_CONFIG always_zero 0 =
     Some (\<lparr>res_pulls = 1, triggeredGuarantee = False\<rparr>, 2) \<and>
   \<not> triggeredGuarantee \<lparr>res_pulls = 1, triggeredGuarantee = False\<rparr> \<and>
   \<not> (0 < targetGuarantee DEFAULT_CONFIG \<and>
       real (res_pulls \<lparr>res_pulls = 1, triggeredGuarantee = False\<rparr>) =
         targetGuarantee DEFAULT_CONFIG)"
  using guarantee_flag_iff
    [of DEFAULT_CONFIG always_zero 0 "\<lparr>res_pulls = 1, triggeredGuarantee = False\<rparr>" 2]
    session_default_always_zero [of 0]
  by simp

text \<open>
  C10. A guarantee that is positive but not a whole number is never equal to the draw
  counter: the session runs exactly as with the guarantee 0 (the same result from the
  same random values, or no result in both cases), and its flag is never set.
\<close>

theorem fractional_guarantee_disabled:
  assumes "0 < targetGuarantee cfg"
    and "real_of_int \<lfloor>targetGuarantee cfg\<rfloor> \<noteq> targetGuarantee cfg"
  shows "simulateOneSession cfg rnd k = simulateOneSession (cfg\<lparr>targetGuarantee := 0\<rparr>) rnd k \<and>
         (\<forall>r k'. simulateOneSession cfg rnd k = Some (r, k') \<longrightarrow> \<not> triggeredGuarantee r)"
proof -
  have "simulateOneSession cfg rnd k = simulateOneSession (cfg\<lparr>targetGuarantee := 0\<rparr>) rnd k"
    unfolding simulateOneSession_def
    by (rule session_loop_cong) (rule loop_body_fractional [OF assms(2)])
  moreover have "\<not> triggeredGuarantee r" if "simulateOneSession cfg rnd k = Some (r, k')" for r k'
    using simulateOneSession_post(3) [OF that] real_nat_neq_fraction [OF assms(2), of "res_pulls r"]
    by simp
  ultimately show ?thesis by blast
qed

theorem fractional_guarantee_disabled_witness:
  "0 < targetGuarantee (DEFAULT_CONFIG\<lparr>targetGuarantee := 3 / 2\<rparr>) \<and>
   real_of_int \<lfloor>targetGuarantee (DEFAULT_CONFIG\<lparr>targetGuarantee := 3 / 2\<rparr>)\<rfloor> \<noteq>
     targetGuarantee (DEFAULT_CONFIG\<lparr>targetGuarantee := 3 / 2\<rparr>) \<and>
   simulateOneSession (DEFAULT_CONFIG\<lparr>targetGuarantee := 3 / 2\<rparr>) miss_once 0 =
     Some (\<lparr>res_pulls = 2, triggeredGuarantee = False\<rparr>, 4) \<and>
   simulateOneSession (DEFAULT_CONFIG\<lparr>targetGuarantee := 3 / 2, targetGuarantee := 0\<rparr>) miss_once 0 =
     Some (\<lparr>res_pulls = 2, triggeredGuarantee = False\<rparr>, 4)"
  using fractional_guarantee_disabled [of "DEFAULT_CONFIG\<lparr>targetGuarantee := 3 / 2\<rparr>" miss_once 0]
    session_fractional_miss_once [of "3 / 2"]
  by simp

section \<open>Properties of the aggregator\<close>

subsection \<open>Auxiliary facts\<close>

lemmas aggregate_loop_induct =
  aggregate_loop.raw_induct [rotated 1, consumes 1, case_names step]

lemma histogram_snoc:
  "(histogram xs)(p \<mapsto> Suc (freq (histogram xs) p)) = histogram (xs @ [p])"
  by (rule ext) (simp add: histogram_def freq_def)

lemma agg_inv_init: "agg_inv cfg (agg_init k)"
  by (simp add: agg_inv_def agg_init_def histogram_def fun_eq_iff)

lemma agg_inv_accumulate:
  assumes "agg_inv cfg a" "1 \<le> res_pulls r" "real (totalPulls a) < targetTotalPulls cfg"
  shows "agg_inv cfg (accumulate a r k)"
  using assms by (auto simp: agg_inv_def accumulate_def histogram_snoc)

lemma aggregate_loop_post:
  assumes "aggregate_loop cfg rnd a = Some b"
  shows "agg_inv cfg a \<longrightarrow> agg_inv cfg b \<and> \<not> real (totalPulls b) < targetTotalPulls cfg"
  using assms
proof (induction cfg rnd a b rule: aggregate_loop_induct)
  case (step loop cfg rnd a b)
  show ?case
  proof (cases "real (totalPulls a) < targetTotalPulls cfg")
    case False
    with step(2) show ?thesis by auto
  next
    case True
    with step(2) obtain r k where
      sess: "simulateOneSession cfg rnd (rngPos a) = Some (r, k)" and
      rest: "loop cfg rnd (accumulate a r k) = Some b"
      by (auto split: option.splits)
    from agg_inv_accumulate[OF _ simulateOneSession_post(1)[OF sess] True] step(1)[OF rest]
    show ?thesis by blast
  qed
qed

lemma maxPull_of_histogram:
  "xs \<noteq> [] \<Longrightarrow> maxPull_of (histogram xs) = Fin (real (Max (set xs)))"
proof -
  have "dom (histogram xs) = set xs" by (auto simp: histogram_def dom_def)
  then show "xs \<noteq> [] \<Longrightarrow> maxPull_of (histogram xs) = Fin (real (Max (set xs)))"
    by (simp add: maxPull_of_def)
qed

lemma summarize_fields:
  "\<exists>is. summarize cfg a = Some
     \<lparr>distribution = build_distribution cfg (counts a) (sessionCount a) is 0,
      totalSimulations = sessionCount a,
      totalPullsConsumed = totalPulls a,
      averagePulls = js_div (real (totalPulls a)) (real (sessionCount a)),
      medianPulls = median_of (pullsArray a),
      pity120Triggered = triggeredGuaranteeCount a,
      maxPulls = maxPull_of (counts a)\<rparr> \<and>
     for_indices (js_max (maxPull_of (counts a)) (Fin (targetGuarantee cfg))) = Some is"
  by (cases "dom (counts a) = {}") (simp_all add: summarize_def maxPull_of_def)



lemma toFixed_real_mono:
  assumes "0 \<le> x" "x \<le> y"
  shows "toFixed_real f x \<le> toFixed_real f y"
proof -
  have "x * 10 ^ f + 1 / 2 \<le> y * 10 ^ f + 1 / 2"
    using assms(2) by (simp add: mult_right_mono)
  then have "\<lfloor>x * 10 ^ f + 1 / 2\<rfloor> \<le> \<lfloor>y * 10 ^ f + 1 / 2\<rfloor>"
    by (rule floor_mono)
  then have "real_of_int \<lfloor>x * 10 ^ f + 1 / 2\<rfloor> / 10 ^ f \<le> real_of_int \<lfloor>y * 10 ^ f + 1 / 2\<rfloor> / 10 ^ f"
    by (simp add: divide_right_mono)
  with assms show ?thesis by (simp add: toFixed_real_def)
qed

lemma cumulativePercent_mk_entry [simp]:
  "cumulativePercent (mk_entry sc i c running) = cumulative_of sc running"
  by (simp add: mk_entry_def cumulative_of_def)

lemma e_pulls_mk_entry [simp]: "e_pulls (mk_entry sc i c running) = i"
  by (simp add: mk_entry_def)

lemma e_count_mk_entry [simp]: "e_count (mk_entry sc i c running) = c"
  by (simp add: mk_entry_def)

lemma cumulative_of_mono:
  assumes "0 < sc" "q \<le> q'"
  shows "js_le (cumulative_of sc q) (cumulative_of sc q')"
proof -
  have "real q / real sc * 100 \<le> real q' / real sc * 100"
    using assms by (simp add: divide_right_mono)
  moreover have "0 \<le> real q / real sc * 100" by simp
  ultimately have "toFixed_real 2 (real q / real sc * 100) \<le> toFixed_real 2 (real q' / real sc * 100)"
    by (rule toFixed_real_mono[rotated])
  with assms(1) show ?thesis by (simp add: cumulative_of_def js_div_def)
qed

lemma cumulative_of_full: "0 < sc \<Longrightarrow> cumulative_of sc sc = Fin 100"
  by (simp add: cumulative_of_def js_div_def toFixed_real_def)

lemma build_distribution_Cons:
  "build_distribution cfg cs sc (i # is) r =
     (if 0 < freq cs i \<or> real i \<le> targetGuarantee cfg \<or> i mod 10 = 0
      then mk_entry sc i (freq cs i) (r + freq cs i) #
           build_distribution cfg cs sc is (r + freq cs i)
      else build_distribution cfg cs sc is r)"
  by (auto simp: Let_def)

lemma build_distribution_running:
  "e \<in> set (build_distribution cfg cs sc is r) \<Longrightarrow>
     \<exists>q. r \<le> q \<and> cumulativePercent e = cumulative_of sc q"
proof (induction "is" arbitrary: r)
  case Nil
  then show ?case by simp
next
  case (Cons i "is")
  let ?q = "r + freq cs i"
  from Cons.prems have "e = mk_entry sc i (freq cs i) ?q \<or> e \<in> set (build_distribution cfg cs sc is ?q)"
    by (auto simp: Let_def split: if_splits)
  then show ?case
  proof
    assume "e = mk_entry sc i (freq cs i) ?q"
    then have "r \<le> ?q \<and> cumulativePercent e = cumulative_of sc ?q" by simp
    then show ?thesis by blast
  next
    assume "e \<in> set (build_distribution cfg cs sc is ?q)"
    from Cons.IH[OF this] obtain q where "?q \<le> q" "cumulativePercent e = cumulative_of sc q"
      by blast
    then have "r \<le> q \<and> cumulativePercent e = cumulative_of sc q" by simp
    then show ?thesis by blast
  qed
qed

lemma build_distribution_sorted:
  assumes "0 < sc"
  shows "sorted_wrt js_le (map cumulativePercent (build_distribution cfg cs sc is r))"
proof (induction "is" arbitrary: r)
  case Nil
  show ?case by simp
next
  case (Cons i "is")
  let ?q = "r + freq cs i"
  have "js_le (cumulative_of sc ?q) (cumulativePercent e)"
    if "e \<in> set (build_distribution cfg cs sc is ?q)" for e
    using build_distribution_running[OF that] cumulative_of_mono[OF assms] by auto
  with Cons.IH[of ?q] Cons.IH[of r] show ?case
    by (simp add: build_distribution_Cons del: build_distribution.simps)
qed

lemma build_distribution_pulls:
  "set (map e_pulls (build_distribution cfg cs sc is r)) \<subseteq> set is"
  by (induction "is" arbitrary: r) (auto simp: Let_def)

lemma build_distribution_pulls_sorted:
  "sorted_wrt (<) is \<Longrightarrow> sorted_wrt (<) (map e_pulls (build_distribution cfg cs sc is r))"
proof (induction "is" arbitrary: r)
  case Nil
  show ?case by simp
next
  case (Cons i "is")
  from build_distribution_pulls[of cfg cs sc "is" "r + freq cs i"] Cons.prems
  have "\<forall>e \<in> set (build_distribution cfg cs sc is (r + freq cs i)). i < e_pulls e"
    by auto
  with Cons show ?case by (simp add: Let_def)
qed

lemma build_distribution_counts:
  "sum_list (map e_count (build_distribution cfg cs sc is r)) = sum_list (map (freq cs) is)"
  by (induction "is" arbitrary: r) (auto simp: Let_def)

lemma build_distribution_last:
  "build_distribution cfg cs sc is r \<noteq> [] \<Longrightarrow>
     cumulativePercent (last (build_distribution cfg cs sc is r)) =
       cumulative_of sc (r + sum_list (map (freq cs) is))"
proof (induction "is" arbitrary: r)
  case Nil
  then show ?case by simp
next
  case (Cons i "is")
  let ?q = "r + freq cs i"
  let ?rest = "build_distribution cfg cs sc is ?q"
  show ?case
  proof (cases "0 < freq cs i \<or> real i \<le> targetGuarantee cfg \<or> i mod 10 = 0")
    case inc: True
    show ?thesis
    proof (cases "?rest = []")
      case True
      with build_distribution_counts[of cfg cs sc "is" ?q]
      have z: "sum_list (map (freq cs) is) = 0" by simp
      have "sum_list (map (freq cs) (i # is)) = freq cs i + sum_list (map (freq cs) is)"
        by simp
      then have tot: "r + sum_list (map (freq cs) (i # is)) = ?q"
        by (simp only: z add_0_right)
      have "build_distribution cfg cs sc (i # is) r = [mk_entry sc i (freq cs i) ?q]"
        using True inc by (simp add: build_distribution_Cons del: build_distribution.simps)
      then have "cumulativePercent (last (build_distribution cfg cs sc (i # is) r)) =
                 cumulative_of sc ?q"
        by simp
      then show ?thesis by (simp only: tot)
    next
      case False
      from Cons.IH[OF False] False inc show ?thesis
        by (simp add: build_distribution_Cons add.assoc del: build_distribution.simps)
    qed
  next
    case False
    then have z: "freq cs i = 0" by simp
    from False Cons.prems have "build_distribution cfg cs sc is r \<noteq> []"
      by (simp add: build_distribution_Cons del: build_distribution.simps)
    from Cons.IH[OF this] False z show ?thesis
      by (simp add: build_distribution_Cons del: build_distribution.simps)
  qed
qed

lemma build_distribution_entry:
  assumes "0 < freq cs i"
  shows "i \<in> set is \<Longrightarrow> sorted_wrt (<) is \<Longrightarrow>
     \<exists>e \<in> set (build_distribution cfg cs sc is r).
        e_pulls e = i \<and> e_count e = freq cs i \<and>
        cumulativePercent e =
          cumulative_of sc (r + sum_list (map (freq cs) (filter (\<lambda>j. j \<le> i) is)))"
proof (induction "is" arbitrary: r)
  case Nil
  then show ?case by simp
next
  case (Cons j js)
  show ?case
  proof (cases "i = j")
    case True
    from Cons.prems(2) have "\<forall>k \<in> set js. j < k" by simp
    then have "filter (\<lambda>k. k \<le> j) js = []" by (auto simp: filter_empty_conv)
    with True assms show ?thesis by (simp add: Let_def)
  next
    case False
    with Cons.prems have mem: "i \<in> set js" and srt: "sorted_wrt (<) js" and lt: "j < i" by auto
    from Cons.IH[OF mem srt, of "r + freq cs j"] lt show ?thesis
      by (auto simp: Let_def add.assoc)
  qed
qed

lemma freq_histogram: "freq (histogram xs) k = count_list xs k"
  by (simp add: freq_def histogram_def)

lemma dom_histogram: "dom (histogram xs) = set xs"
  by (auto simp: histogram_def dom_def)

lemma sum_freq_histogram_upto:
  assumes "\<forall>p \<in> set xs. 1 \<le> p \<and> p \<le> M" "M \<le> K"
  shows "sum_list (map (freq (histogram xs)) (filter (\<lambda>j. j \<le> M) [1..<Suc K])) = length xs"
proof -
  have "distinct (filter (\<lambda>j. j \<le> M) [1..<Suc K])" by simp
  then have "sum_list (map (count_list xs) (filter (\<lambda>j. j \<le> M) [1..<Suc K])) =
             sum (count_list xs) (set (filter (\<lambda>j. j \<le> M) [1..<Suc K]))"
    by (rule sum_list_distinct_conv_sum_set)
  also have "set (filter (\<lambda>j. j \<le> M) [1..<Suc K]) = {1..M}"
    using assms(2) by auto
  also have "sum (count_list xs) {1..M} = length xs"
    using assms(1) by (intro sum_count_set) auto
  finally show ?thesis by (simp add: freq_histogram[abs_def])
qed

lemma sum_freq_histogram_all:
  assumes "\<forall>p \<in> set xs. 1 \<le> p \<and> p \<le> K"
  shows "sum_list (map (freq (histogram xs)) [1..<Suc K]) = length xs"
proof -
  have "filter (\<lambda>j. j \<le> K) [1..<Suc K] = [1..<Suc K]"
    by (rule filter_True) (auto simp del: upt_Suc)
  with sum_freq_histogram_upto[OF assms le_refl] show ?thesis by (simp only:)
qed

lemma sum_freq_histogram_dom:
  "(\<Sum>k \<in> dom (histogram xs). freq (histogram xs) k) = length xs"
  by (simp add: dom_histogram freq_histogram[abs_def] sum_count_set)

lemma summarize_Some:
  assumes "summarize cfg a = Some res"
  shows "totalSimulations res = sessionCount a" "totalPullsConsumed res = totalPulls a"
    "averagePulls res = js_div (real (totalPulls a)) (real (sessionCount a))"
    "medianPulls res = median_of (pullsArray a)"
    "pity120Triggered res = triggeredGuaranteeCount a"
    "maxPulls res = maxPull_of (counts a)"
    "\<exists>is. for_indices (js_max (maxPull_of (counts a)) (Fin (targetGuarantee cfg))) = Some is \<and>
          distribution res = build_distribution cfg (counts a) (sessionCount a) is 0"
  using summarize_fields[of cfg a] assms by auto

lemma build_distribution_no_sessions:
  "\<forall>i \<in> set is. real i \<le> targetGuarantee cfg \<Longrightarrow>
     build_distribution cfg Map.empty 0 is 0 =
       map (\<lambda>i. \<lparr>e_pulls = i, e_count = 0, percent = NaN, cumulativePercent = NaN\<rparr>) is"
  by (induction "is") (simp_all add: freq_def mk_entry_def js_div_def)

lemma upto_floor_le:
  assumes "i \<in> set [1..<Suc (nat \<lfloor>x\<rfloor>)]"
  shows "real i \<le> (x::real)"
proof -
  from assms have i: "1 \<le> i" "i \<le> nat \<lfloor>x\<rfloor>" by auto
  then have "int i \<le> \<lfloor>x\<rfloor>" by linarith
  then show ?thesis by (simp add: le_floor_iff)
qed

lemma zero_budget_run:
  assumes "targetTotalPulls cfg \<le> 0"
  shows "aggregate_loop cfg rnd (agg_init k) = Some (agg_init k)"
    and "runSimulation cfg rnd =
           Some \<lparr>distribution =
                   map (\<lambda>i. \<lparr>e_pulls = i, e_count = 0, percent = NaN, cumulativePercent = NaN\<rparr>)
                     [1..<Suc (nat \<lfloor>targetGuarantee cfg\<rfloor>)],
                 totalSimulations = 0, totalPullsConsumed = 0, averagePulls = NaN,
                 medianPulls = None, pity120Triggered = 0, maxPulls = NegInf\<rparr>"
proof -
  show loop: "aggregate_loop cfg rnd (agg_init k) = Some (agg_init k)" for k
    using assms by (subst aggregate_loop.simps) (simp add: agg_init_def)
  have "build_distribution cfg Map.empty 0 [1..<Suc (nat \<lfloor>targetGuarantee cfg\<rfloor>)] 0 =
       map (\<lambda>i. \<lparr>e_pulls = i, e_count = 0, percent = NaN, cumulativePercent = NaN\<rparr>)
         [1..<Suc (nat \<lfloor>targetGuarantee cfg\<rfloor>)]"
  proof (rule build_distribution_no_sessions, rule ballI)
    fix i assume "i \<in> set [1..<Suc (nat \<lfloor>targetGuarantee cfg\<rfloor>)]"
    then show "real i \<le> targetGuarantee cfg" by (rule upto_floor_le)
  qed
  then have "summarize cfg (agg_init 0) =
           Some \<lparr>distribution =
                   map (\<lambda>i. \<lparr>e_pulls = i, e_count = 0, percent = NaN, cumulativePercent = NaN\<rparr>)
                     [1..<Suc (nat \<lfloor>targetGuarantee cfg\<rfloor>)],
                 totalSimulations = 0, totalPullsConsumed = 0, averagePulls = NaN,
                 medianPulls = None, pity120Triggered = 0, maxPulls = NegInf\<rparr>"
    by (simp add: summarize_def agg_init_def maxPull_of_def js_div_def median_of_def
        del: upt_Suc)
  then show "runSimulation cfg rnd =
           Some \<lparr>distribution =
                   map (\<lambda>i. \<lparr>e_pulls = i, e_count = 0, percent = NaN, cumulativePercent = NaN\<rparr>)
                     [1..<Suc (nat \<lfloor>targetGuarantee cfg\<rfloor>)],
                 totalSimulations = 0, totalPullsConsumed = 0, averagePulls = NaN,
                 medianPulls = None, pity120Triggered = 0, maxPulls = NegInf\<rparr>"
    by (simp add: runSimulation_def loop)
qed




text \<open>With a guarantee that is a positive whole number the aggregator returns.\<close>

lemma aggregate_loop_terminates:
  assumes "0 < targetGuarantee cfg" "real_of_int \<lfloor>targetGuarantee cfg\<rfloor> = targetGuarantee cfg"
  shows "\<exists>b. aggregate_loop cfg rnd a = Some b"
proof (induction "nat \<lceil>targetTotalPulls cfg\<rceil> - totalPulls a" arbitrary: a rule: less_induct)
  case less
  show ?case
  proof (cases "real (totalPulls a) < targetTotalPulls cfg")
    case False
    then show ?thesis by (subst aggregate_loop.simps) simp
  next
    case True
    from simulateOneSession_terminates[OF assms, of rnd "rngPos a"]
    obtain r k where sess: "simulateOneSession cfg rnd (rngPos a) = Some (r, k)"
      and one: "1 \<le> res_pulls r"
      by blast
    from True have "totalPulls a < nat \<lceil>targetTotalPulls cfg\<rceil>" by linarith
    with one have "nat \<lceil>targetTotalPulls cfg\<rceil> - totalPulls (accumulate a r k) <
                   nat \<lceil>targetTotalPulls cfg\<rceil> - totalPulls a"
      by (simp add: accumulate_def)
    from less[OF this] obtain b where "aggregate_loop cfg rnd (accumulate a r k) = Some b"
      by blast
    with True sess show ?thesis by (subst aggregate_loop.simps) simp
  qed
qed

lemma runSimulation_terminates:
  assumes "0 < targetGuarantee cfg" "real_of_int \<lfloor>targetGuarantee cfg\<rfloor> = targetGuarantee cfg"
  shows "\<exists>res. runSimulation cfg rnd = Some res"
proof -
  from aggregate_loop_terminates[OF assms, of rnd "agg_init 0"]
  obtain b where "aggregate_loop cfg rnd (agg_init 0) = Some b" by blast
  with summarize_fields[of cfg b] show ?thesis by (auto simp: runSimulation_def)
qed


subsection \<open>Concrete runs\<close>

lemma two_session_first:
  "simulateOneSession two_session_config miss_once 0 =
     Some (\<lparr>res_pulls = 2, triggeredGuarantee = True\<rparr>, 2)"
  by (simp add: simulateOneSession_def session_init_def session_loop.simps loop_body_def
      currentRate6_def DEFAULT_CONFIG_def miss_once_def two_session_config_def)

lemma two_session_second:
  "simulateOneSession two_session_config miss_once 2 =
     Some (\<lparr>res_pulls = 1, triggeredGuarantee = False\<rparr>, 4)"
  by (simp add: simulateOneSession_def session_init_def session_loop.simps loop_body_def
      currentRate6_def DEFAULT_CONFIG_def miss_once_def two_session_config_def)

lemma two_session_target:
  "targetTotalPulls two_session_config = 3" "targetGuarantee two_session_config = 2"
  by (simp_all add: two_session_config_def DEFAULT_CONFIG_def)

lemma two_session_run:
  "aggregate_loop two_session_config miss_once (agg_init 0) = Some two_session_state"
  by (simp add: aggregate_loop.simps two_session_first two_session_second two_session_target
      agg_init_def accumulate_def freq_def two_session_state_def)

lemma two_session_summary:
  "summarize two_session_config two_session_state = Some two_session_result"
  by (simp add: summarize_def two_session_state_def two_session_result_def two_session_target
      maxPull_of_def upt_rec mk_entry_def js_div_def toFixed_real_def freq_def median_of_def)

lemma two_session_simulation:
  "runSimulation two_session_config miss_once = Some two_session_result"
  by (simp add: runSimulation_def two_session_run two_session_summary)





subsection \<open>The claims about the aggregator\<close>



text \<open>
  C6. After a run with at least one session the distribution is well formed: its entries
  are in increasing order of draw count and their cumulative percentages never decrease;
  the entry of the largest observed draw count exists and has the cumulative percentage
  100, and so has the last entry; the frequencies of the map \<open>counts\<close> sum to the number
  of sessions, and so do the frequencies of the entries.
\<close>

theorem distribution_well_formed:
  assumes "aggregate_loop cfg rnd (agg_init k) = Some a"
    and "summarize cfg a = Some res"
    and "0 < totalSimulations res"
  shows "sorted_wrt js_le (map cumulativePercent (distribution res)) \<and>
         sorted_wrt (<) (map e_pulls (distribution res)) \<and>
         (\<exists>e \<in> set (distribution res).
             maxPulls res = Fin (real (e_pulls e)) \<and> cumulativePercent e = Fin 100) \<and>
         cumulativePercent (last (distribution res)) = Fin 100 \<and>
         (\<Sum>i \<in> dom (counts a). freq (counts a) i) = totalSimulations res \<and>
         sum_list (map e_count (distribution res)) = totalSimulations res"
proof -
  let ?xs = "pullsArray a"
  let ?M = "Max (set ?xs)"
  let ?K = "nat \<lfloor>max (real ?M) (targetGuarantee cfg)\<rfloor>"
  let ?sc = "length ?xs"
  let ?h = "histogram ?xs"
  from aggregate_loop_post[OF assms(1)] agg_inv_init have inv: "agg_inv cfg a" by blast
  then have cnt: "sessionCount a = ?sc" and hist: "counts a = ?h"
    and pos: "\<forall>p \<in> set ?xs. 1 \<le> p"
    unfolding agg_inv_def by blast+
  note res = summarize_Some[OF assms(2)]
  from assms(3) have sc: "0 < ?sc" by (simp add: res cnt)
  then have ne: "?xs \<noteq> []" by simp
  then have mp: "maxPull_of ?h = Fin (real ?M)" by (rule maxPull_of_histogram)
  from res(7) have dist: "distribution res = build_distribution cfg ?h ?sc [1..<Suc ?K] 0"
    by (auto simp: hist cnt mp)
  from ne have Mmem: "?M \<in> set ?xs" by simp
  have MK: "?M \<le> ?K" by (rule le_nat_floor) simp
  from pos ne have rng: "\<forall>p \<in> set ?xs. 1 \<le> p \<and> p \<le> ?M" by simp
  have rngK: "\<forall>p \<in> set ?xs. 1 \<le> p \<and> p \<le> ?K"
  proof (intro ballI conjI)
    fix p assume p: "p \<in> set ?xs"
    with pos show "1 \<le> p" by blast
    from p have "p \<le> ?M" by simp
    then show "p \<le> ?K" using MK by (rule order_trans)
  qed
  have full: "cumulative_of ?sc ?sc = Fin 100" by (rule cumulative_of_full[OF sc])
  have c1: "sorted_wrt js_le (map cumulativePercent (distribution res))"
    unfolding dist by (rule build_distribution_sorted[OF sc])
  have c2: "sorted_wrt (<) (map e_pulls (distribution res))"
    unfolding dist by (rule build_distribution_pulls_sorted) (rule sorted_wrt_upt)
  from Mmem have "count_list ?xs ?M \<noteq> 0" by (simp only: count_list_0_iff not_not)
  then have fM: "0 < freq ?h ?M" by (simp add: freq_histogram)
  from rng Mmem MK have Min: "?M \<in> set [1..<Suc ?K]" by auto
  from build_distribution_entry[OF fM Min sorted_wrt_upt, of cfg ?sc 0]
  obtain e where e: "e \<in> set (distribution res)" "e_pulls e = ?M"
    "cumulativePercent e =
       cumulative_of ?sc (0 + sum_list (map (freq ?h) (filter (\<lambda>j. j \<le> ?M) [1..<Suc ?K])))"
    unfolding dist by blast
  from e(3) have e100: "cumulativePercent e = Fin 100"
    by (simp only: sum_freq_histogram_upto[OF rng MK] add_0 full)
  have "maxPulls res = Fin (real (e_pulls e))"
    by (simp add: res hist mp e(2))
  with e(1) e100 have c3: "\<exists>e \<in> set (distribution res).
             maxPulls res = Fin (real (e_pulls e)) \<and> cumulativePercent e = Fin 100"
    by blast
  from e(1) have "distribution res \<noteq> []" by auto
  then have "build_distribution cfg ?h ?sc [1..<Suc ?K] 0 \<noteq> []"
    unfolding dist .
  from build_distribution_last[OF this]
  have c4: "cumulativePercent (last (distribution res)) = Fin 100"
    unfolding dist by (simp only: sum_freq_histogram_all[OF rngK] add_0 full)
  have c5: "(\<Sum>i \<in> dom (counts a). freq (counts a) i) = totalSimulations res"
    by (simp add: res hist cnt sum_freq_histogram_dom)
  have c6: "sum_list (map e_count (distribution res)) = totalSimulations res"
    unfolding dist
    by (simp only: build_distribution_counts sum_freq_histogram_all[OF rngK] res cnt)
  from c1 c2 c3 c4 c5 c6 show ?thesis by blast
qed

theorem distribution_well_formed_witness:
  "aggregate_loop two_session_config miss_once (agg_init 0) = Some two_session_state \<and>
   summarize two_session_config two_session_state = Some two_session_result \<and>
   0 < totalSimulations two_session_result \<and>
   sorted_wrt js_le (map cumulativePercent (distribution two_session_result)) \<and>
   sorted_wrt (<) (map e_pulls (distribution two_session_result)) \<and>
   (\<exists>e \<in> set (distribution two_session_result).
       maxPulls two_session_result = Fin (real (e_pulls e)) \<and> cumulativePercent e = Fin 100) \<and>
   cumulativePercent (last (distribution two_session_result)) = Fin 100 \<and>
   (\<Sum>i \<in> dom (counts two_session_state). freq (counts two_session_state) i) =
     totalSimulations two_session_result \<and>
   sum_list (map e_count (distribution two_session_result)) = totalSimulations two_session_result"
proof -
  have h: "0 < totalSimulations two_session_result"
    by (simp add: two_session_result_def)
  from distribution_well_formed [OF two_session_run two_session_summary h]
    two_session_run two_session_summary h
  show ?thesis by blast
qed

text \<open>
  C7, as the code has it. The median of the result is the element at index
  \<open>floor(count / 2)\<close> of the draw counts sorted in ascending order (and \<open>undefined\<close>
  when no session was run). For an even number \<open>2 m\<close> of samples that is the element at
  index \<open>m\<close>: the upper one of the two middle elements, at indices \<open>m - 1\<close> and \<open>m\<close>.
  The counterexample is the run with the samples 2 and 1, whose median is 2 and whose
  lower middle element is 1.
\<close>

theorem median_is_upper_middle:
  assumes "summarize cfg a = Some res"
  shows "medianPulls res =
           (if pullsArray a = [] then None
            else Some (sort (pullsArray a) ! (length (pullsArray a) div 2))) \<and>
         (0 < m \<and> length (pullsArray a) = 2 * m \<longrightarrow>
            medianPulls res = Some (sort (pullsArray a) ! m) \<and>
            sort (pullsArray a) ! (m - 1) \<le> sort (pullsArray a) ! m)"
proof -
  have med: "medianPulls res =
           (if pullsArray a = [] then None
            else Some (sort (pullsArray a) ! (length (pullsArray a) div 2)))"
    by (simp add: summarize_Some(4)[OF assms] median_of_def)
  have "sort (pullsArray a) ! (m - 1) \<le> sort (pullsArray a) ! m"
    if "0 < m" "length (pullsArray a) = 2 * m"
    using that by (intro sorted_nth_mono) auto
  with med show ?thesis by auto
qed

theorem median_is_upper_middle_witness:
  "summarize two_session_config two_session_state = Some two_session_result \<and>
   0 < (1::nat) \<and> length (pullsArray two_session_state) = 2 * 1 \<and>
   medianPulls two_session_result =
     (if pullsArray two_session_state = [] then None
      else Some (sort (pullsArray two_session_state) !
                   (length (pullsArray two_session_state) div 2))) \<and>
   medianPulls two_session_result = Some (sort (pullsArray two_session_state) ! 1) \<and>
   sort (pullsArray two_session_state) ! (1 - 1) \<le> sort (pullsArray two_session_state) ! 1"
proof -
  have h: "0 < (1::nat) \<and> length (pullsArray two_session_state) = 2 * 1"
    by (simp add: two_session_state_def)
  from median_is_upper_middle [OF two_session_summary, of 1] two_session_summary h
  show ?thesis by blast
qed

theorem median_lower_middle_counterexample:
  "runSimulation two_session_config miss_once = Some two_session_result \<and>
   aggregate_loop two_session_config miss_once (agg_init 0) = Some two_session_state \<and>
   pullsArray two_session_state = [2, 1] \<and>
   even (length (pullsArray two_session_state)) \<and>
   medianPulls two_session_result = Some 2 \<and>
   sort (pullsArray two_session_state) !
     (length (pullsArray two_session_state) div 2 - 1) = 1 \<and>
   medianPulls two_session_result \<noteq>
     Some (sort (pullsArray two_session_state) !
             (length (pullsArray two_session_state) div 2 - 1))"
  using two_session_simulation two_session_run
  by (simp add: two_session_state_def two_session_result_def)

text \<open>
  C8, as the code has it. With a budget that is not positive the aggregator runs no
  session (its state is the initial one and no random value is consumed), and the result
  is not guarded: the session count and the total are 0, the mean is \<open>0 / 0 = NaN\<close>,
  the median is \<open>undefined\<close>, the maximum is \<open>-Infinity\<close>, and the distribution has one
  entry for each draw count up to the guarantee, with frequency 0 and both percentages
  \<open>NaN\<close>. The counterexample is the default configuration with the guarantee 1 and the
  budget 0.
\<close>

theorem zero_budget_unguarded:
  assumes "targetTotalPulls cfg \<le> 0"
  shows "aggregate_loop cfg rnd (agg_init k) = Some (agg_init k) \<and>
         runSimulation cfg rnd =
           Some \<lparr>distribution =
                   map (\<lambda>i. \<lparr>e_pulls = i, e_count = 0, percent = NaN, cumulativePercent = NaN\<rparr>)
                     [1..<Suc (nat \<lfloor>targetGuarantee cfg\<rfloor>)],
                 totalSimulations = 0, totalPullsConsumed = 0, averagePulls = NaN,
                 medianPulls = None, pity120Triggered = 0, maxPulls = NegInf\<rparr>"
  using zero_budget_run [OF assms] by blast

theorem zero_budget_unguarded_witness:
  "targetTotalPulls (DEFAULT_CONFIG\<lparr>targetTotalPulls := 0\<rparr>) \<le> 0 \<and>
   aggregate_loop (DEFAULT_CONFIG\<lparr>targetTotalPulls := 0\<rparr>) always_zero (agg_init 0) =
     Some (agg_init 0) \<and>
   runSimulation (DEFAULT_CONFIG\<lparr>targetTotalPulls := 0\<rparr>) always_zero =
     Some \<lparr>distribution =
             map (\<lambda>i. \<lparr>e_pulls = i, e_count = 0, percent = NaN, cumulativePercent = NaN\<rparr>)
               [1..<Suc (nat \<lfloor>targetGuarantee (DEFAULT_CONFIG\<lparr>targetTotalPulls := 0\<rparr>)\<rfloor>)],
           totalSimulations = 0, totalPullsConsumed = 0, averagePulls = NaN,
           medianPulls = None, pity120Triggered = 0, maxPulls = NegInf\<rparr>"
proof -
  have h: "targetTotalPulls (DEFAULT_CONFIG\<lparr>targetTotalPulls := 0\<rparr>) \<le> 0" by simp
  from zero_budget_unguarded [OF h, of always_zero 0] h show ?thesis by blast
qed

theorem zero_budget_counterexample:
  "targetTotalPulls (DEFAULT_CONFIG\<lparr>targetGuarantee := 1, targetTotalPulls := 0\<rparr>) \<le> 0 \<and>
   runSimulation (DEFAULT_CONFIG\<lparr>targetGuarantee := 1, targetTotalPulls := 0\<rparr>) always_zero =
     Some \<lparr>distribution =
             [\<lparr>e_pulls = 1, e_count = 0, percent = NaN, cumulativePercent = NaN\<rparr>],
           totalSimulations = 0, totalPullsConsumed = 0, averagePulls = NaN,
           medianPulls = None, pity120Triggered = 0, maxPulls = NegInf\<rparr>"
  using zero_budget_run(2) [of "DEFAULT_CONFIG\<lparr>targetGuarantee := 1, targetTotalPulls := 0\<rparr>" always_zero]
  by simp

end
